theory Spec2Isabelle
  imports Complex_Main "HOL-Library.Sublist"
begin

section \<open>The memory-thinking server: data model\<close>

text \<open>
  The server (TypeScript, \<^verbatim>\<open>src/unnamed/part_000\<close>) keeps two JSON files: the knowledge
  graph (\<^verbatim>\<open>MEMORY_FILE_PATH\<close>) and the thought chains (\<^verbatim>\<open>THINKING_FILE_PATH\<close>).
  Every operation reads a whole file, changes the value in memory and writes the whole
  file back. The model passes the file explicitly and returns it updated.

  Conventions of the model:
  \<^item> a JavaScript number that arrives in a JSON request is a finite value; it is modelled
    as a rational (\<open>NaN\<close> and the infinities cannot be written in JSON);
  \<^item> a JavaScript string is a \<open>string\<close>, each \<open>char\<close> a UTF-16 code unit below 256
    (ASCII and Latin-1); strings with other code units are outside the model;
  \<^item> a thrown \<^verbatim>\<open>Error\<close> is a value of type \<open>error\<close>, one constructor per throw site,
    and \<open>message\<close> gives the text the source puts into it;
  \<^item> a file is \<open>Missing\<close> (reading fails with \<^verbatim>\<open>ENOENT\<close>), \<open>Stored v\<close> (reading and
    parsing give \<open>v\<close>) or \<open>Unreadable m\<close> (reading or \<^verbatim>\<open>JSON.parse\<close> throws an error with
    message \<open>m\<close>). Writing is taken to succeed and to be read back as written;
  \<^item> an object used as a dictionary (\<^verbatim>\<open>Record<string, T>\<close>) is a map of its own
    properties; reading a key that is not an own property finds the member of
    \<^verbatim>\<open>Object.prototype\<close> of that name, when there is one (\<open>getProperty\<close> below).
\<close>

type_synonym number = rat

datatype error =
    InvalidThought
  | InvalidThoughtNumber
  | InvalidTotalThoughts
  | InvalidNextThoughtNeeded
  | EntityNotFound string
  | StorageError string
  | TypeError string

fun message :: "error \<Rightarrow> string" where
  "message InvalidThought = ''Invalid thought: must be a string''"
| "message InvalidThoughtNumber = ''Invalid thoughtNumber: must be a number''"
| "message InvalidTotalThoughts = ''Invalid totalThoughts: must be a number''"
| "message InvalidNextThoughtNeeded = ''Invalid nextThoughtNeeded: must be a boolean''"
| "message (EntityNotFound n) = ''Entity with name '' @ n @ '' not found''"
| "message (StorageError m) = m"
| "message (TypeError m) = m"

datatype 'a fs_file = Missing | Stored 'a | Unreadable string

record Entity =
  name :: string
  entityType :: string
  observations :: "string list"

record Relation =
  rel_from :: string
  rel_to :: string
  relationType :: string

record KnowledgeGraph =
  entities :: "Entity list"
  relations :: "Relation list"

record ObservationInput =
  entityName :: string
  contents :: "string list"

record ObservationResult =
  res_entityName :: string
  addedObservations :: "string list"

section \<open>KnowledgeGraphManager\<close>

definition emptyGraph :: KnowledgeGraph where
  "emptyGraph = \<lparr>entities = [], relations = []\<rparr>"

fun loadGraph :: "KnowledgeGraph fs_file \<Rightarrow> error + KnowledgeGraph" where
  "loadGraph Missing = Inr emptyGraph"
| "loadGraph (Stored g) = Inr g"
| "loadGraph (Unreadable m) = Inl (StorageError m)"

definition saveGraph :: "KnowledgeGraph \<Rightarrow> KnowledgeGraph fs_file" where
  "saveGraph g = Stored g"

text \<open>
  \<^verbatim>\<open>createEntities\<close>: the candidates are filtered against the entities loaded from the
  file (before any of them is pushed), the survivors are pushed, and the graph is saved.
\<close>

definition createEntities ::
  "Entity list \<Rightarrow> KnowledgeGraph fs_file \<Rightarrow> (error + Entity list) \<times> KnowledgeGraph fs_file" where
  "createEntities es f =
     (case loadGraph f of
        Inl err \<Rightarrow> (Inl err, f)
      | Inr graph \<Rightarrow>
          let newEntities =
                filter (\<lambda>e. \<not> list_ex (\<lambda>existingEntity. name existingEntity = name e)
                                   (entities graph)) es;
              graph' = graph\<lparr>entities := entities graph @ newEntities\<rparr>
          in (Inr newEntities, saveGraph graph'))"

definition createRelations ::
  "Relation list \<Rightarrow> KnowledgeGraph fs_file \<Rightarrow> (error + Relation list) \<times> KnowledgeGraph fs_file" where
  "createRelations rs f =
     (case loadGraph f of
        Inl err \<Rightarrow> (Inl err, f)
      | Inr graph \<Rightarrow>
          let newRelations =
                filter (\<lambda>r. \<not> list_ex (\<lambda>existingRelation.
                                     rel_from existingRelation = rel_from r \<and>
                                     rel_to existingRelation = rel_to r \<and>
                                     relationType existingRelation = relationType r)
                                   (relations graph)) rs;
              graph' = graph\<lparr>relations := relations graph @ newRelations\<rparr>
          in (Inr newRelations, saveGraph graph'))"

text \<open>
  \<^verbatim>\<open>addObservations\<close>: \<^verbatim>\<open>find\<close> returns the first entity with the name, and the
  \<^verbatim>\<open>push\<close> changes that element of the loaded graph in place. \<open>pushObservations\<close> is
  that in-place change; \<open>addObservationsMap\<close> is the callback of \<^verbatim>\<open>observations.map\<close>
  run over the batch, with the loaded graph threaded through. The graph is saved only
  when the whole \<^verbatim>\<open>map\<close> has returned.
\<close>

fun pushObservations :: "string \<Rightarrow> string list \<Rightarrow> Entity list \<Rightarrow> Entity list" where
  "pushObservations n new [] = []"
| "pushObservations n new (e # es) =
     (if name e = n then e\<lparr>observations := observations e @ new\<rparr> # es
      else e # pushObservations n new es)"

fun addObservationsMap ::
  "KnowledgeGraph \<Rightarrow> ObservationInput list \<Rightarrow> error + (ObservationResult list \<times> KnowledgeGraph)" where
  "addObservationsMap graph [] = Inr ([], graph)"
| "addObservationsMap graph (ob # obs) =
     (case find (\<lambda>e. name e = entityName ob) (entities graph) of
        None \<Rightarrow> Inl (EntityNotFound (entityName ob))
      | Some entity \<Rightarrow>
          let newObservations =
                filter (\<lambda>content. content \<notin> set (observations entity)) (contents ob);
              graph' = graph\<lparr>entities :=
                         pushObservations (entityName ob) newObservations (entities graph)\<rparr>
          in (case addObservationsMap graph' obs of
                Inl err \<Rightarrow> Inl err
              | Inr (results, graph'') \<Rightarrow>
                  Inr (\<lparr>res_entityName = entityName ob,
                        addedObservations = newObservations\<rparr> # results, graph'')))"

definition addObservations ::
  "ObservationInput list \<Rightarrow> KnowledgeGraph fs_file
     \<Rightarrow> (error + ObservationResult list) \<times> KnowledgeGraph fs_file" where
  "addObservations batch f =
     (case loadGraph f of
        Inl err \<Rightarrow> (Inl err, f)
      | Inr graph \<Rightarrow>
          (case addObservationsMap graph batch of
             Inl err \<Rightarrow> (Inl err, f)
           | Inr (results, graph') \<Rightarrow> (Inr results, saveGraph graph')))"

text \<open>
  \<^verbatim>\<open>searchNodes\<close>. \<open>toLowerCase\<close> is \<^verbatim>\<open>String.prototype.toLowerCase\<close> on the strings
  of the model: the upper-case letters among the code units below 256 are \<open>A\<close> to \<open>Z\<close>
  (65 to 90) and the Latin-1 letters 192 to 222 without the multiplication sign 215, and
  the lower-case form of each is 32 above it; every other code unit is kept, and no
  mapping depends on the neighbours. \<open>str_includes\<close> is \<^verbatim>\<open>String.prototype.includes\<close>:
  the argument occurs at some position of the receiver.
\<close>

definition toLowerChar :: "char \<Rightarrow> char" where
  "toLowerChar c =
     (let n = (of_char c :: nat)
      in if (65 \<le> n \<and> n \<le> 90) \<or> (192 \<le> n \<and> n \<le> 214) \<or> (216 \<le> n \<and> n \<le> 222)
         then char_of (n + 32) else c)"

definition toLowerCase :: "string \<Rightarrow> string" where
  "toLowerCase s = map toLowerChar s"

fun startsWith :: "string \<Rightarrow> string \<Rightarrow> bool" where
  "startsWith s [] = True"
| "startsWith [] (q # qs) = False"
| "startsWith (c # cs) (q # qs) = (c = q \<and> startsWith cs qs)"

fun str_includes :: "string \<Rightarrow> string \<Rightarrow> bool" where
  "str_includes [] q = startsWith [] q"
| "str_includes (c # cs) q = (startsWith (c # cs) q \<or> str_includes cs q)"

definition entityMatches :: "string \<Rightarrow> Entity \<Rightarrow> bool" where
  "entityMatches query e =
     (str_includes (toLowerCase (name e)) (toLowerCase query) \<or>
      str_includes (toLowerCase (entityType e)) (toLowerCase query) \<or>
      list_ex (\<lambda>ob. str_includes (toLowerCase ob) (toLowerCase query)) (observations e))"

definition searchNodes :: "string \<Rightarrow> KnowledgeGraph fs_file \<Rightarrow> error + KnowledgeGraph" where
  "searchNodes query f =
     (case loadGraph f of
        Inl err \<Rightarrow> Inl err
      | Inr graph \<Rightarrow>
          let filteredEntities = filter (entityMatches query) (entities graph);
              filteredEntityNames = set (map name filteredEntities);
              filteredRelations =
                filter (\<lambda>r. rel_from r \<in> filteredEntityNames \<and> rel_to r \<in> filteredEntityNames)
                       (relations graph)
          in Inr \<lparr>entities = filteredEntities, relations = filteredRelations\<rparr>)"

text \<open>
  The specification side of the search, stated without \<open>toLowerCase\<close>. \<open>letterCases\<close>
  is the table of the letters that have two cases, each upper-case letter with its
  lower-case form. Two characters are equal ignoring case when they are the same
  character or the two cases of one letter. The query is a case-insensitive substring of
  a text when some run of consecutive characters of the text equals the query, character
  by character, ignoring case.
\<close>

definition upperCaseCodes :: "nat list" where
  "upperCaseCodes = [65..<91] @ [192..<215] @ [216..<223]"

definition letterCases :: "(char \<times> char) list" where
  "letterCases = map (\<lambda>n. (char_of n, char_of (n + 32))) upperCaseCodes"

definition equalIgnoringCase :: "char \<Rightarrow> char \<Rightarrow> bool" where
  "equalIgnoringCase a b =
     (a = b \<or> (a, b) \<in> set letterCases \<or> (b, a) \<in> set letterCases)"


section \<open>ThinkingManager\<close>

text \<open>
  The request object. \<^verbatim>\<open>validateInput\<close> receives it as \<^verbatim>\<open>unknown\<close> and checks four
  fields; these have the types \<open>'t\<close>, \<open>'n\<close>, \<open>'b\<close>, which are \<open>jsval\<close> before the
  validation and \<open>string\<close>, \<open>number\<close>, \<open>bool\<close> after it (\<^verbatim>\<open>asserts input is
  MemoryThinkingInput\<close>). The optional fields have the types of the interfaces
  \<^verbatim>\<open>ThoughtData\<close> and \<^verbatim>\<open>MemoryThinkingInput\<close>; \<open>None\<close> is an absent field. The record
  holds the fields of \<^verbatim>\<open>MemoryThinkingInput\<close>: \<^verbatim>\<open>storeThought\<close> is declared on
  \<^verbatim>\<open>ThoughtData\<close>, is called with the whole input, and its spread copies every field.
\<close>

datatype jsval = JUndefined | JNull | JBool bool | JNum number | JStr string | JObject

record ('t, 'n, 'b) ThoughtInput =
  thought :: 't
  thoughtNumber :: 'n
  totalThoughts :: 'n
  isRevision :: "bool option"
  revisesThought :: "number option"
  branchFromThought :: "number option"
  branchId :: "string option"
  needsMoreThoughts :: "bool option"
  nextThoughtNeeded :: 'b
  inp_context :: "string option"
  timestamp :: "number option"
  storeInMemory :: "bool option"
  retrieveFromMemory :: "bool option"

type_synonym RawInput = "(jsval, jsval, jsval) ThoughtInput"
type_synonym MemoryThinkingInput = "(string, number, bool) ThoughtInput"

record ThoughtChain =
  chain_id :: string
  chain_context :: string
  thoughts :: "MemoryThinkingInput list"
  branches :: "string \<rightharpoonup> MemoryThinkingInput list"
  createdAt :: number
  updatedAt :: number

type_synonym Thinking = "string \<rightharpoonup> ThoughtChain"

text \<open>
  What one call of \<^verbatim>\<open>storeThought\<close> reads from outside: the identifier that
  \<^verbatim>\<open>generateId\<close> would return, and the four readings of \<^verbatim>\<open>Date.now()\<close>, in the order
  of the source (\<^verbatim>\<open>createdAt\<close> and \<^verbatim>\<open>updatedAt\<close> of a new chain, the refreshed
  \<^verbatim>\<open>updatedAt\<close>, the \<^verbatim>\<open>timestamp\<close>).
\<close>

record Env =
  generateId :: string
  nowCreatedAt :: number
  nowUpdatedAtNew :: number
  nowUpdatedAt :: number
  nowTimestamp :: number

text \<open>Truthiness of an optional field, as \<^verbatim>\<open>&&\<close>, \<^verbatim>\<open>||\<close> and \<^verbatim>\<open>if\<close> test it.\<close>

fun truthyString :: "string option \<Rightarrow> bool" where
  "truthyString None = False"
| "truthyString (Some s) = (s \<noteq> [])"

fun truthyNumber :: "number option \<Rightarrow> bool" where
  "truthyNumber None = False"
| "truthyNumber (Some n) = (n \<noteq> 0)"

fun truthyBoolean :: "bool option \<Rightarrow> bool" where
  "truthyBoolean None = False"
| "truthyBoolean (Some b) = b"

text \<open>\<^verbatim>\<open>a || b\<close> on an optional string \<open>a\<close> and a string \<open>b\<close>.\<close>

fun orElse :: "string option \<Rightarrow> string \<Rightarrow> string" where
  "orElse None d = d"
| "orElse (Some s) d = (if s = [] then d else s)"

fun loadThinking :: "Thinking fs_file \<Rightarrow> error + Thinking" where
  "loadThinking Missing = Inr Map.empty"
| "loadThinking (Stored t) = Inr t"
| "loadThinking (Unreadable m) = Inl (StorageError m)"

definition saveThinking :: "Thinking \<Rightarrow> Thinking fs_file" where
  "saveThinking t = Stored t"

definition newChain :: "Env \<Rightarrow> string \<Rightarrow> string \<Rightarrow> ThoughtChain" where
  "newChain env i c =
     \<lparr>chain_id = i, chain_context = c, thoughts = [], branches = Map.empty,
      createdAt = nowCreatedAt env, updatedAt = nowUpdatedAtNew env\<rparr>"

text \<open>
  Reading \<^verbatim>\<open>obj[key]\<close> on a plain object (one made by \<^verbatim>\<open>JSON.parse\<close> or by an object
  literal). An own property is found first. Otherwise the names of the members of
  \<^verbatim>\<open>Object.prototype\<close> find the inherited member, a function or, for \<^verbatim>\<open>__proto__\<close>,
  the prototype itself: a truthy value that is no chain and no array. Any other key is
  \<^verbatim>\<open>undefined\<close>. \<^verbatim>\<open>Object.prototype\<close> is taken as the engine provides it when the
  process starts.
\<close>

definition objectPrototypeKeys :: "string list" where
  "objectPrototypeKeys =
     [''constructor'', ''__defineGetter__'', ''__defineSetter__'', ''hasOwnProperty'',
      ''__lookupGetter__'', ''__lookupSetter__'', ''isPrototypeOf'',
      ''propertyIsEnumerable'', ''toString'', ''valueOf'', ''__proto__'',
      ''toLocaleString'']"

datatype 'a property = Own 'a | Inherited | NotFound

definition getProperty :: "(string \<rightharpoonup> 'a) \<Rightarrow> string \<Rightarrow> 'a property" where
  "getProperty obj key =
     (case obj key of
        Some v \<Rightarrow> Own v
      | None \<Rightarrow> if key \<in> set objectPrototypeKeys then Inherited else NotFound)"

text \<open>
  The last \<^verbatim>\<open>if\<close> of \<^verbatim>\<open>storeThought\<close>, on a chain of the store. On the branch route
  \<^verbatim>\<open>chain.branches[input.branchId]\<close> is read: \<^verbatim>\<open>undefined\<close> is replaced by a new empty
  array and the thought is pushed; an own array gets the thought pushed; an inherited
  member is truthy, is not replaced, and has no \<^verbatim>\<open>push\<close>, so the call throws. Otherwise
  the thought is pushed to \<^verbatim>\<open>chain.thoughts\<close>. The texts of the \<open>TypeError\<close>s are those
  of the V8 engine.
\<close>

definition pushThought ::
  "MemoryThinkingInput \<Rightarrow> MemoryThinkingInput \<Rightarrow> ThoughtChain \<Rightarrow> error + ThoughtChain" where
  "pushThought input thoughtWithTimestamp chain =
     (if truthyNumber (branchFromThought input) \<and> truthyString (branchId input) then
        (let b = orElse (branchId input) [] in
         case getProperty (branches chain) b of
           NotFound \<Rightarrow>
             Inr (chain\<lparr>branches := (branches chain)(b \<mapsto> [] @ [thoughtWithTimestamp])\<rparr>)
         | Own ts \<Rightarrow>
             Inr (chain\<lparr>branches := (branches chain)(b \<mapsto> ts @ [thoughtWithTimestamp])\<rparr>)
         | Inherited \<Rightarrow>
             Inl (TypeError ''chain.branches[input.branchId].push is not a function''))
      else Inr (chain\<lparr>thoughts := thoughts chain @ [thoughtWithTimestamp]\<rparr>))"

text \<open>
  When \<^verbatim>\<open>thinking[id]\<close> is an inherited member, \<^verbatim>\<open>!thinking[id]\<close> is false and no chain
  is created; \<^verbatim>\<open>chain\<close> is that member, which has neither \<^verbatim>\<open>branches\<close> nor
  \<^verbatim>\<open>thoughts\<close>, so the read of \<^verbatim>\<open>chain.branches[input.branchId]\<close> or the call of
  \<^verbatim>\<open>chain.thoughts.push\<close> throws. (The assignment to \<^verbatim>\<open>chain.updatedAt\<close> before it
  changes that member, an object of the process, and no file.)
\<close>

definition inheritedChainError :: "MemoryThinkingInput \<Rightarrow> error" where
  "inheritedChainError input =
     (if truthyNumber (branchFromThought input) \<and> truthyString (branchId input) then
        TypeError (''Cannot read properties of undefined (reading '' @ [CHR 0x27]
                   @ orElse (branchId input) [] @ [CHR 0x27] @ '')'')
      else TypeError ''Cannot read properties of undefined (reading 'push')'')"

definition storeThought ::
  "Env \<Rightarrow> MemoryThinkingInput \<Rightarrow> Thinking fs_file \<Rightarrow> (error + string) \<times> Thinking fs_file" where
  "storeThought env input f =
     (case loadThinking f of
        Inl err \<Rightarrow> (Inl err, f)
      | Inr thinking \<Rightarrow>
          let ctx = orElse (inp_context input) ''default'';
              i = orElse (branchId input) (generateId env);
              thoughtWithTimestamp = input\<lparr>timestamp := Some (nowTimestamp env)\<rparr>;
              pushAndSave = (\<lambda>chain0.
                case pushThought input thoughtWithTimestamp
                       (chain0\<lparr>updatedAt := nowUpdatedAt env\<rparr>) of
                  Inl err \<Rightarrow> (Inl err, f)
                | Inr chain2 \<Rightarrow> (Inr i, saveThinking (thinking(i \<mapsto> chain2))))
          in (case getProperty thinking i of
                NotFound \<Rightarrow> pushAndSave (newChain env i ctx)
              | Own c \<Rightarrow> pushAndSave c
              | Inherited \<Rightarrow> (Inl (inheritedChainError input), f)))"

section \<open>MemoryThinkingManager\<close>

text \<open>
  \<^verbatim>\<open>validateInput\<close> tests \<^verbatim>\<open>!data.f || typeof data.f !== '...'\<close> on three fields and
  \<^verbatim>\<open>typeof\<close> alone on the fourth. \<open>truthy\<close> and \<open>typeof\<close> are the two operators on a
  value that came out of \<^verbatim>\<open>JSON.parse\<close> (\<open>JObject\<close> stands for an array or an object).
  When no test throws, the object is used at the asserted type; \<open>asString\<close>,
  \<open>asNumber\<close> and \<open>asBoolean\<close> read a field at the type that its test has established.
\<close>

fun truthy :: "jsval \<Rightarrow> bool" where
  "truthy JUndefined = False"
| "truthy JNull = False"
| "truthy (JBool b) = b"
| "truthy (JNum n) = (n \<noteq> 0)"
| "truthy (JStr s) = (s \<noteq> [])"
| "truthy JObject = True"

fun typeof :: "jsval \<Rightarrow> string" where
  "typeof JUndefined = ''undefined''"
| "typeof JNull = ''object''"
| "typeof (JBool b) = ''boolean''"
| "typeof (JNum n) = ''number''"
| "typeof (JStr s) = ''string''"
| "typeof JObject = ''object''"

fun asString :: "jsval \<Rightarrow> string" where
  "asString (JStr s) = s"
| "asString _ = []"

fun asNumber :: "jsval \<Rightarrow> number" where
  "asNumber (JNum n) = n"
| "asNumber _ = 0"

fun asBoolean :: "jsval \<Rightarrow> bool" where
  "asBoolean (JBool b) = b"
| "asBoolean _ = False"

definition asserted :: "RawInput \<Rightarrow> MemoryThinkingInput" where
  "asserted data =
     \<lparr>thought = asString (thought data),
      thoughtNumber = asNumber (thoughtNumber data),
      totalThoughts = asNumber (totalThoughts data),
      isRevision = isRevision data,
      revisesThought = revisesThought data,
      branchFromThought = branchFromThought data,
      branchId = branchId data,
      needsMoreThoughts = needsMoreThoughts data,
      nextThoughtNeeded = asBoolean (nextThoughtNeeded data),
      inp_context = inp_context data,
      timestamp = timestamp data,
      storeInMemory = storeInMemory data,
      retrieveFromMemory = retrieveFromMemory data\<rparr>"

definition validateInput :: "RawInput \<Rightarrow> error + MemoryThinkingInput" where
  "validateInput data =
     (if \<not> truthy (thought data) \<or> typeof (thought data) \<noteq> ''string'' then
        Inl InvalidThought
      else if \<not> truthy (thoughtNumber data) \<or> typeof (thoughtNumber data) \<noteq> ''number'' then
        Inl InvalidThoughtNumber
      else if \<not> truthy (totalThoughts data) \<or> typeof (totalThoughts data) \<noteq> ''number'' then
        Inl InvalidTotalThoughts
      else if typeof (nextThoughtNeeded data) \<noteq> ''boolean'' then
        Inl InvalidNextThoughtNeeded
      else Inr (asserted data))"

text \<open>
  The response. \<^verbatim>\<open>content\<close> has one item of type \<^verbatim>\<open>"text"\<close>; its text is the JSON of the
  result object or of \<^verbatim>\<open>{error, status: 'failed'}\<close>, kept here as the object itself.
  \<^verbatim>\<open>isError\<close> is set only by the \<^verbatim>\<open>catch\<close>; an absent \<^verbatim>\<open>isError\<close> is \<open>False\<close>.
\<close>

record ContextCounts =
  cc_entities :: nat
  cc_relations :: nat

record ResultBody =
  res_thoughtNumber :: number
  res_totalThoughts :: number
  res_nextThoughtNeeded :: bool
  thoughtChainId :: string
  relevantContext :: "ContextCounts option"
  contextStored :: bool

datatype Payload = Result ResultBody | Failed string

record Response =
  content :: Payload
  isError :: bool

record World =
  memoryFile :: "KnowledgeGraph fs_file"
  thinkingFile :: "Thinking fs_file"

definition failure :: "error \<Rightarrow> Response" where
  "failure err = \<lparr>content = Failed (message err), isError = True\<rparr>"

text \<open>Step 2 of \<^verbatim>\<open>processThought\<close>: \<^verbatim>\<open>totalThoughts\<close> is raised to \<^verbatim>\<open>thoughtNumber\<close>.\<close>

definition adjustTotal :: "MemoryThinkingInput \<Rightarrow> MemoryThinkingInput" where
  "adjustTotal input =
     (if thoughtNumber input > totalThoughts input
      then input\<lparr>totalThoughts := thoughtNumber input\<rparr> else input)"

text \<open>Step 3: \<^verbatim>\<open>relevantContext\<close>, \<open>None\<close> for \<^verbatim>\<open>null\<close>.\<close>

definition retrieve ::
  "MemoryThinkingInput \<Rightarrow> KnowledgeGraph fs_file \<Rightarrow> error + KnowledgeGraph option" where
  "retrieve input mf =
     (if truthyBoolean (retrieveFromMemory input) \<and> truthyString (inp_context input) then
        (case searchNodes (orElse (inp_context input) []) mf of
           Inl err \<Rightarrow> Inl err
         | Inr g \<Rightarrow> Inr (Some g))
      else Inr None)"

text \<open>Step 5: the entity of the context, then the relation to the thought chain.\<close>

definition storeInsight ::
  "MemoryThinkingInput \<Rightarrow> string \<Rightarrow> KnowledgeGraph fs_file
     \<Rightarrow> (error + unit) \<times> KnowledgeGraph fs_file" where
  "storeInsight input chainId mf =
     (if truthyBoolean (storeInMemory input) \<and> truthyString (inp_context input) then
        (let c = orElse (inp_context input) [] in
         case createEntities
                [\<lparr>name = c, entityType = ''ThoughtContext'', observations = [thought input]\<rparr>] mf
         of (Inl err, mf1) \<Rightarrow> (Inl err, mf1)
          | (Inr created, mf1) \<Rightarrow>
              (case createRelations
                      [\<lparr>rel_from = c, rel_to = ''ThoughtChain_'' @ chainId,
                        relationType = ''has_thinking_process''\<rparr>] mf1
               of (Inl err, mf2) \<Rightarrow> (Inl err, mf2)
                | (Inr created', mf2) \<Rightarrow> (Inr (), mf2)))
      else (Inr (), mf))"

definition respond ::
  "MemoryThinkingInput \<Rightarrow> string \<Rightarrow> KnowledgeGraph option \<Rightarrow> Response" where
  "respond input i rc =
     \<lparr>content = Result
        \<lparr>res_thoughtNumber = thoughtNumber input,
         res_totalThoughts = totalThoughts input,
         res_nextThoughtNeeded = nextThoughtNeeded input,
         thoughtChainId = i,
         relevantContext =
           (case rc of
              None \<Rightarrow> None
            | Some g \<Rightarrow> Some \<lparr>cc_entities = length (entities g),
                               cc_relations = length (relations g)\<rparr>),
         contextStored = truthyBoolean (storeInMemory input)\<rparr>,
      isError = False\<rparr>"

text \<open>
  \<^verbatim>\<open>processThought\<close>: the body of the \<^verbatim>\<open>try\<close> runs the steps in order, and the first
  error ends it in the \<^verbatim>\<open>catch\<close>, which builds the failure response. The files keep what
  was written before the error. The line logged with \<^verbatim>\<open>console.error\<close> is not part
  of the model.
\<close>

definition processThought :: "Env \<Rightarrow> RawInput \<Rightarrow> World \<Rightarrow> Response \<times> World" where
  "processThought env data w =
     (case validateInput data of
        Inl err \<Rightarrow> (failure err, w)
      | Inr validated \<Rightarrow>
          let input = adjustTotal validated in
          (case retrieve input (memoryFile w) of
             Inl err \<Rightarrow> (failure err, w)
           | Inr rc \<Rightarrow>
               (case storeThought env input (thinkingFile w) of
                  (Inl err, tf) \<Rightarrow> (failure err, w\<lparr>thinkingFile := tf\<rparr>)
                | (Inr i, tf) \<Rightarrow>
                    (case storeInsight input i (memoryFile w) of
                       (Inl err, mf) \<Rightarrow>
                         (failure err, w\<lparr>thinkingFile := tf, memoryFile := mf\<rparr>)
                     | (Inr u, mf) \<Rightarrow>
                         (respond input i rc, w\<lparr>thinkingFile := tf, memoryFile := mf\<rparr>)))))"

section \<open>Example values\<close>

definition exampleGraph :: KnowledgeGraph where
  "exampleGraph =
     \<lparr>entities =
        [\<lparr>name = ''Alice'', entityType = ''person'', observations = [''likes Tea'']\<rparr>,
         \<lparr>name = ''Bob'', entityType = ''person'', observations = []\<rparr>],
      relations =
        [\<lparr>rel_from = ''Alice'', rel_to = ''Bob'', relationType = ''knows''\<rparr>,
         \<lparr>rel_from = ''Alice'', rel_to = ''Alice'', relationType = ''is''\<rparr>]\<rparr>"

definition topicEntity :: Entity where
  "topicEntity = \<lparr>name = ''topic'', entityType = ''ThoughtContext'', observations = [''A'']\<rparr>"

definition exampleEnv :: Env where
  "exampleEnv = \<lparr>generateId = ''k3x9q'', nowCreatedAt = 1000, nowUpdatedAtNew = 1000,
                  nowUpdatedAt = 1001, nowTimestamp = 1002\<rparr>"

definition exampleThought :: MemoryThinkingInput where
  "exampleThought =
     \<lparr>thought = ''A'', thoughtNumber = 1, totalThoughts = 3, isRevision = None,
      revisesThought = None, branchFromThought = None, branchId = None,
      needsMoreThoughts = None, nextThoughtNeeded = True, inp_context = Some ''topic'',
      timestamp = None, storeInMemory = None, retrieveFromMemory = None\<rparr>"

definition exampleChain :: ThoughtChain where
  "exampleChain =
     \<lparr>chain_id = ''c1'', chain_context = ''old topic'', thoughts = [exampleThought],
      branches = Map.empty, createdAt = 5, updatedAt = 6\<rparr>"

definition exampleThinking :: Thinking where
  "exampleThinking = [''c1'' \<mapsto> exampleChain]"

definition exampleRequest :: RawInput where
  "exampleRequest =
     \<lparr>thought = JStr ''A'', thoughtNumber = JNum 1, totalThoughts = JNum 3,
      isRevision = None, revisesThought = None, branchFromThought = None, branchId = None,
      needsMoreThoughts = None, nextThoughtNeeded = JBool True,
      inp_context = Some ''topic'', timestamp = None, storeInMemory = Some True,
      retrieveFromMemory = Some True\<rparr>"

text \<open>A request that passes \<^verbatim>\<open>validateInput\<close> with a negative and a fractional number.\<close>

definition negativeRequest :: RawInput where
  "negativeRequest =
     \<lparr>thought = JStr ''A'', thoughtNumber = JNum (- 1), totalThoughts = JNum (3 / 2),
      isRevision = None, revisesThought = None, branchFromThought = None, branchId = None,
      needsMoreThoughts = None, nextThoughtNeeded = JBool True,
      inp_context = None, timestamp = None, storeInMemory = None,
      retrieveFromMemory = None\<rparr>"

definition emptyWorld :: World where
  "emptyWorld = \<lparr>memoryFile = Missing, thinkingFile = Missing\<rparr>"

text \<open>Worlds whose graph file does not parse.\<close>

definition brokenGraphWorld :: World where
  "brokenGraphWorld =
     \<lparr>memoryFile = Unreadable ''Unexpected end of JSON input'', thinkingFile = Missing\<rparr>"

definition brokenGraphWorld' :: World where
  "brokenGraphWorld' =
     \<lparr>memoryFile = Unreadable ''Unexpected end of JSON input'',
      thinkingFile = Stored exampleThinking\<rparr>"

section \<open>Graph Store: properties\<close>

lemma find_SomeD: "find P xs = Some x \<Longrightarrow> P x \<and> x \<in> set xs"
  by (induction xs) (auto split: if_splits)

lemma map_name_pushObservations: "map name (pushObservations n new es) = map name es"
  by (induction es) auto




lemma set_upperCaseCodes:
  "set upperCaseCodes = {65..<91} \<union> {192..<215} \<union> {216..<223}"
  by (simp only: upperCaseCodes_def set_append set_upt Un_assoc)

text \<open>The table read through the codes of the characters.\<close>

lemma mem_letterCases:
  "(a, b) \<in> set letterCases \<longleftrightarrow>
     ((65 \<le> (of_char a :: nat) \<and> (of_char a :: nat) \<le> 90) \<or>
      (192 \<le> (of_char a :: nat) \<and> (of_char a :: nat) \<le> 214) \<or>
      (216 \<le> (of_char a :: nat) \<and> (of_char a :: nat) \<le> 222)) \<and>
     (of_char b :: nat) = of_char a + 32"
  (is "?L \<longleftrightarrow> ?R")
proof
  assume ?L
  then obtain n where n: "n \<in> set upperCaseCodes" "a = char_of n" "b = char_of (n + 32)"
    by (auto simp: letterCases_def)
  from n(1) have "n < 223"
    "(65 \<le> n \<and> n \<le> 90) \<or> (192 \<le> n \<and> n \<le> 214) \<or> (216 \<le> n \<and> n \<le> 222)"
    unfolding set_upperCaseCodes by auto
  then show ?R unfolding n(2,3) by simp
next
  assume r: ?R
  then have "(of_char a :: nat) \<in> set upperCaseCodes"
    unfolding set_upperCaseCodes by auto
  moreover have "a = char_of (of_char a :: nat)" by simp
  moreover from r have "b = char_of ((of_char a :: nat) + 32)"
    by (metis char_of_char)
  ultimately show ?L
    unfolding letterCases_def set_map by (intro image_eqI [where x = "of_char a :: nat"]) auto
qed

lemma equalIgnoringCase_examples:
  "equalIgnoringCase (CHR ''T'') (CHR ''t'')"
  "equalIgnoringCase (CHR ''t'') (CHR ''T'')"
  "equalIgnoringCase (CHR 0xC9) (CHR 0xE9)"
  "\<not> equalIgnoringCase (CHR 0xD7) (CHR 0xF7)"
  "\<not> equalIgnoringCase (CHR ''a'') (CHR ''b'')"
  "\<not> equalIgnoringCase (CHR ''@'') (CHR 0x60)"
  by (simp_all add: equalIgnoringCase_def mem_letterCases)






lemma searchNodes_example:
  "searchNodes ''TEA'' (Stored exampleGraph) =
     Inr \<lparr>entities =
            [\<lparr>name = ''Alice'', entityType = ''person'', observations = [''likes Tea'']\<rparr>],
          relations =
            [\<lparr>rel_from = ''Alice'', rel_to = ''Alice'', relationType = ''is''\<rparr>]\<rparr>"
  by code_simp

lemma searchNodes_latin1_example:
  "searchNodes [CHR 0xE9]
     (Stored \<lparr>entities = [\<lparr>name = [CHR 0xC9], entityType = ''T'', observations = []\<rparr>],
             relations = []\<rparr>) =
     Inr \<lparr>entities = [\<lparr>name = [CHR 0xC9], entityType = ''T'', observations = []\<rparr>],
          relations = []\<rparr>"
  by code_simp

text \<open>
  Claim C3. After \<^verbatim>\<open>addObservations\<close> every entity should hold a given observation string
  at most once, also when the \<^verbatim>\<open>contents\<close> of one item holds the same string twice. The
  filter of the source compares each string of \<^verbatim>\<open>contents\<close> with the observations that
  the entity had before this item, not with the strings pushed by the same item: on an
  entity \<open>E\<close> without observations, the contents \<open>[a, a]\<close> are both added, both
  returned, and the saved entity holds \<open>a\<close> twice.
\<close>

theorem addObservations_repeated_content_stored_twice:
  "addObservations [\<lparr>entityName = ''E'', contents = [''a'', ''a'']\<rparr>]
     (Stored \<lparr>entities = [\<lparr>name = ''E'', entityType = ''T'', observations = []\<rparr>],
             relations = []\<rparr>)
   = (Inr [\<lparr>res_entityName = ''E'', addedObservations = [''a'', ''a'']\<rparr>],
      Stored \<lparr>entities = [\<lparr>name = ''E'', entityType = ''T'', observations = [''a'', ''a'']\<rparr>],
              relations = []\<rparr>)"
  by (simp add: addObservations_def saveGraph_def Let_def)

lemma addObservationsMap_absent:
  "\<exists>ob \<in> set batch. entityName ob \<notin> set (map name (entities g)) \<Longrightarrow>
   \<exists>ob \<in> set batch. entityName ob \<notin> set (map name (entities g)) \<and>
      addObservationsMap g batch = Inl (EntityNotFound (entityName ob))"
proof (induction batch arbitrary: g)
  case Nil
  then show ?case by simp
next
  case (Cons ob obs)
  show ?case
  proof (cases "find (\<lambda>e. name e = entityName ob) (entities g)")
    case None
    then have "entityName ob \<notin> set (map name (entities g))"
      by (auto simp: find_None_iff)
    with None show ?thesis by simp
  next
    case (Some entity)
    then have here: "entityName ob \<in> set (map name (entities g))"
      by (force dest!: find_SomeD)
    define new where
      "new = filter (\<lambda>content. content \<notin> set (observations entity)) (contents ob)"
    define g' where "g' = g\<lparr>entities := pushObservations (entityName ob) new (entities g)\<rparr>"
    have names: "map name (entities g') = map name (entities g)"
      by (simp add: g'_def map_name_pushObservations)
    from Cons.prems here have "\<exists>x \<in> set obs. entityName x \<notin> set (map name (entities g'))"
      unfolding names by auto
    from Cons.IH [OF this] obtain x where x: "x \<in> set obs"
      "entityName x \<notin> set (map name (entities g))"
      "addObservationsMap g' obs = Inl (EntityNotFound (entityName x))"
      unfolding names by blast
    have "addObservationsMap g (ob # obs) = Inl (EntityNotFound (entityName x))"
      using Some x(3) by (simp add: Let_def new_def g'_def)
    with x show ?thesis by auto
  qed
qed

text \<open>
  Claim C4. When the graph file can be read and some item of the batch names an entity
  that is not in the graph, \<^verbatim>\<open>addObservations\<close> fails with the entity-not-found error
  for such an item, and the file is the one the call started from: what the items before
  the failing one changed in memory is not saved.
\<close>

theorem addObservations_unknown_entity_aborts:
  assumes "loadGraph f = Inr g"
    and "\<exists>ob \<in> set batch. entityName ob \<notin> name ` set (entities g)"
  shows "\<exists>ob \<in> set batch. entityName ob \<notin> name ` set (entities g) \<and>
           addObservations batch f = (Inl (EntityNotFound (entityName ob)), f)"
proof -
  from assms(2) have "\<exists>ob \<in> set batch. entityName ob \<notin> set (map name (entities g))"
    by simp
  from addObservationsMap_absent [OF this] obtain ob where
    "ob \<in> set batch" "entityName ob \<notin> set (map name (entities g))"
    "addObservationsMap g batch = Inl (EntityNotFound (entityName ob))" by blast
  then show ?thesis using assms(1) by (auto simp: addObservations_def)
qed

theorem addObservations_unknown_entity_aborts_witness:
  "loadGraph (Stored exampleGraph) = Inr exampleGraph \<and>
   (\<exists>ob \<in> set [\<lparr>entityName = ''Alice'', contents = [''x'']\<rparr>,
                \<lparr>entityName = ''Zed'', contents = [''y'']\<rparr>].
      entityName ob \<notin> name ` set (entities exampleGraph)) \<and>
   (\<exists>ob \<in> set [\<lparr>entityName = ''Alice'', contents = [''x'']\<rparr>,
                \<lparr>entityName = ''Zed'', contents = [''y'']\<rparr>].
      entityName ob \<notin> name ` set (entities exampleGraph) \<and>
      addObservations [\<lparr>entityName = ''Alice'', contents = [''x'']\<rparr>,
                       \<lparr>entityName = ''Zed'', contents = [''y'']\<rparr>] (Stored exampleGraph)
        = (Inl (EntityNotFound (entityName ob)), Stored exampleGraph))"
proof -
  have h1: "loadGraph (Stored exampleGraph) = Inr exampleGraph" by simp
  have h2: "\<exists>ob \<in> set [\<lparr>entityName = ''Alice'', contents = [''x'']\<rparr>,
                          \<lparr>entityName = ''Zed'', contents = [''y'']\<rparr>].
              entityName ob \<notin> name ` set (entities exampleGraph)"
    by (simp add: exampleGraph_def)
  from h1 h2 addObservations_unknown_entity_aborts [OF h1 h2] show ?thesis by blast
qed

text \<open>
  Claim C5. When the graph file can be read and holds no entity with the name of the
  candidate \<open>e\<close>, \<^verbatim>\<open>createEntities\<close> on the one-element sequence \<open>[e]\<close> returns \<open>[e]\<close>
  and saves the graph with \<open>e\<close> appended; the same call on the saved file returns the
  empty sequence and saves the same graph again, so the entity stored by the first call
  keeps its type and its observations.
\<close>

theorem createEntities_new_then_dropped:
  assumes "loadGraph f = Inr g" and "name e \<notin> name ` set (entities g)"
  shows "createEntities [e] f = (Inr [e], Stored (g\<lparr>entities := entities g @ [e]\<rparr>)) \<and>
         createEntities [e] (Stored (g\<lparr>entities := entities g @ [e]\<rparr>)) =
           (Inr [], Stored (g\<lparr>entities := entities g @ [e]\<rparr>))"
proof -
  have fresh: "\<forall>x \<in> set (entities g). name x \<noteq> name e"
  proof
    fix x assume "x \<in> set (entities g)"
    then have "name x \<in> name ` set (entities g)" by (rule imageI)
    with assms(2) show "name x \<noteq> name e" by metis
  qed
  then show ?thesis
    using assms(1) by (simp add: createEntities_def saveGraph_def list_ex_iff Let_def)
qed

theorem createEntities_new_then_dropped_witness:
  "loadGraph Missing = Inr emptyGraph \<and>
   name topicEntity \<notin> name ` set (entities emptyGraph) \<and>
   createEntities [topicEntity] Missing =
     (Inr [topicEntity], Stored (emptyGraph\<lparr>entities := entities emptyGraph @ [topicEntity]\<rparr>)) \<and>
   createEntities [topicEntity]
       (Stored (emptyGraph\<lparr>entities := entities emptyGraph @ [topicEntity]\<rparr>)) =
     (Inr [], Stored (emptyGraph\<lparr>entities := entities emptyGraph @ [topicEntity]\<rparr>))"
proof -
  have h1: "loadGraph Missing = Inr emptyGraph" by simp
  have h2: "name topicEntity \<notin> name ` set (entities emptyGraph)"
    by (simp add: emptyGraph_def)
  from h1 h2 createEntities_new_then_dropped [OF h1 h2] show ?thesis by blast
qed



section \<open>Chain Store and Orchestrator: auxiliary facts\<close>

lemma getProperty_Some: "obj key = Some v \<Longrightarrow> getProperty obj key = Own v"
  by (simp add: getProperty_def)

lemma getProperty_Own: "getProperty obj key = Own v \<longleftrightarrow> obj key = Some v"
  by (auto simp: getProperty_def split: option.splits)

lemma getProperty_NotFound:
  "getProperty obj key = NotFound \<longleftrightarrow> obj key = None \<and> key \<notin> set objectPrototypeKeys"
  by (auto simp: getProperty_def split: option.splits)

lemma getProperty_Inherited:
  "getProperty obj key = Inherited \<longleftrightarrow> obj key = None \<and> key \<in> set objectPrototypeKeys"
  by (auto simp: getProperty_def split: option.splits)

text \<open>What \<open>pushThought\<close> has done when it returns a chain.\<close>

lemma pushThought_Inr:
  assumes "pushThought input t chain = Inr chain'"
  shows "(truthyNumber (branchFromThought input) \<and> truthyString (branchId input) \<longrightarrow>
            (\<exists>b. branchId input = Some b \<and> b \<noteq> [] \<and>
                 chain' = chain\<lparr>branches := (branches chain)
                            (b \<mapsto> (case branches chain b of None \<Rightarrow> [] | Some ts \<Rightarrow> ts) @ [t])\<rparr>)) \<and>
         (\<not> (truthyNumber (branchFromThought input) \<and> truthyString (branchId input)) \<longrightarrow>
            chain' = chain\<lparr>thoughts := thoughts chain @ [t]\<rparr>)"
proof (cases "truthyNumber (branchFromThought input) \<and> truthyString (branchId input)")
  case False
  with assms show ?thesis by (auto simp: pushThought_def)
next
  case True
  then obtain b where b: "branchId input = Some b" "b \<noteq> []"
    by (cases "branchId input") auto
  from True b assms have
    "chain' = chain\<lparr>branches := (branches chain)
                (b \<mapsto> (case branches chain b of None \<Rightarrow> [] | Some ts \<Rightarrow> ts) @ [t])\<rparr>"
    by (auto simp: pushThought_def getProperty_def split: option.splits if_splits)
  with True b show ?thesis by simp
qed

text \<open>What \<open>storeThought\<close> has done when it returns an identifier.\<close>

lemma storeThought_Inr:
  assumes "loadThinking f = Inr thinking" and "storeThought env input f = (Inr i, f')"
  shows "i = orElse (branchId input) (generateId env) \<and>
         (thinking i = None \<longrightarrow> i \<notin> set objectPrototypeKeys) \<and>
         (\<exists>chain'.
            pushThought input (input\<lparr>timestamp := Some (nowTimestamp env)\<rparr>)
              ((case thinking i of
                  None \<Rightarrow> newChain env i (orElse (inp_context input) ''default'')
                | Some c \<Rightarrow> c)\<lparr>updatedAt := nowUpdatedAt env\<rparr>) = Inr chain' \<and>
            f' = Stored (thinking(i \<mapsto> chain')))"
  using assms
  by (auto simp: storeThought_def Let_def saveThinking_def getProperty_def
      split: option.splits if_splits sum.splits)

text \<open>
  The append returns whenever the chain file can be read and the identifier is not the
  name of a member of \<^verbatim>\<open>Object.prototype\<close>.
\<close>

lemma storeThought_succeeds:
  assumes "loadThinking f = Inr thinking"
    and "orElse (branchId input) (generateId env) \<notin> set objectPrototypeKeys"
  shows "\<exists>f'. storeThought env input f = (Inr (orElse (branchId input) (generateId env)), f')"
proof -
  let ?i = "orElse (branchId input) (generateId env)"
  let ?t = "input\<lparr>timestamp := Some (nowTimestamp env)\<rparr>"
  have b: "truthyString (branchId input) \<Longrightarrow> orElse (branchId input) [] = ?i"
    by (cases "branchId input") auto
  have p: "\<exists>chain'. pushThought input ?t chain = Inr chain'" for chain
    using assms(2) b
    by (auto simp: pushThought_def getProperty_def Let_def split: option.splits)
  show ?thesis
  proof (cases "thinking ?i")
    case None
    with assms(2) have g: "getProperty thinking ?i = NotFound"
      by (simp add: getProperty_def)
    from p obtain chain' where
      "pushThought input ?t
         ((newChain env ?i (orElse (inp_context input) ''default''))
            \<lparr>updatedAt := nowUpdatedAt env\<rparr>) = Inr chain'"
      by blast
    with assms(1) g show ?thesis
      by (simp add: storeThought_def Let_def)
  next
    case (Some c)
    then have g: "getProperty thinking ?i = Own c"
      by (simp add: getProperty_def)
    from p obtain chain' where
      "pushThought input ?t (c\<lparr>updatedAt := nowUpdatedAt env\<rparr>) = Inr chain'"
      by blast
    with assms(1) g show ?thesis
      by (simp add: storeThought_def Let_def)
  qed
qed

text \<open>
  The routing rule of every append that returns: with \<^verbatim>\<open>branchFromThought\<close> a number
  of at least 1 and \<^verbatim>\<open>branchId\<close> a non-empty string the stamped thought goes to the end
  of that branch and \<^verbatim>\<open>thoughts\<close> is kept; with one of the two absent it goes to the
  end of \<^verbatim>\<open>thoughts\<close> and the branches are kept; \<^verbatim>\<open>updatedAt\<close> is refreshed.
\<close>

lemma storeThought_routing_when_stored:
  assumes "loadThinking f = Inr thinking" and "storeThought env input f = (Inr i, f')"
  shows "\<exists>chain thinking'.
           f' = Stored thinking' \<and> thinking' i = Some chain \<and>
           updatedAt chain = nowUpdatedAt env \<and>
           (\<forall>n b. branchFromThought input = Some n \<and> 1 \<le> n \<and>
                  branchId input = Some b \<and> b \<noteq> [] \<longrightarrow>
              branches chain b =
                Some ((case thinking i of
                         None \<Rightarrow> []
                       | Some c \<Rightarrow> (case branches c b of None \<Rightarrow> [] | Some ts \<Rightarrow> ts))
                      @ [input\<lparr>timestamp := Some (nowTimestamp env)\<rparr>]) \<and>
              thoughts chain = (case thinking i of None \<Rightarrow> [] | Some c \<Rightarrow> thoughts c)) \<and>
           (branchFromThought input = None \<or> branchId input = None \<longrightarrow>
              thoughts chain =
                (case thinking i of None \<Rightarrow> [] | Some c \<Rightarrow> thoughts c)
                @ [input\<lparr>timestamp := Some (nowTimestamp env)\<rparr>] \<and>
              branches chain = (case thinking i of None \<Rightarrow> Map.empty | Some c \<Rightarrow> branches c))"
proof -
  from storeThought_Inr [OF assms] obtain chain' where
    p: "pushThought input (input\<lparr>timestamp := Some (nowTimestamp env)\<rparr>)
          ((case thinking i of
              None \<Rightarrow> newChain env i (orElse (inp_context input) ''default'')
            | Some c \<Rightarrow> c)\<lparr>updatedAt := nowUpdatedAt env\<rparr>) = Inr chain'"
    and f': "f' = Stored (thinking(i \<mapsto> chain'))"
    by blast
  from pushThought_Inr [OF p] show ?thesis
    unfolding f'
    by (cases "truthyNumber (branchFromThought input) \<and> truthyString (branchId input)")
       (auto simp: newChain_def split: option.splits)
qed

lemma typeof_string: "typeof v = ''string'' \<longleftrightarrow> (\<exists>s. v = JStr s)"
  by (cases v) auto

lemma typeof_number: "typeof v = ''number'' \<longleftrightarrow> (\<exists>n. v = JNum n)"
  by (cases v) auto

lemma typeof_boolean: "typeof v = ''boolean'' \<longleftrightarrow> (\<exists>b. v = JBool b)"
  by (cases v) auto

text \<open>
  When \<^verbatim>\<open>validateInput\<close> does not throw, the four checked fields hold a non-empty
  string, two numbers other than zero and a boolean, and the typed input reads exactly
  these values: the defaults of \<open>asString\<close>, \<open>asNumber\<close> and \<open>asBoolean\<close> are never used.
\<close>

lemma validateInput_Inr:
  assumes "validateInput data = Inr v"
  shows "v = asserted data \<and>
     thought data = JStr (thought v) \<and> thought v \<noteq> [] \<and>
     thoughtNumber data = JNum (thoughtNumber v) \<and> thoughtNumber v \<noteq> 0 \<and>
     totalThoughts data = JNum (totalThoughts v) \<and> totalThoughts v \<noteq> 0 \<and>
     nextThoughtNeeded data = JBool (nextThoughtNeeded v)"
proof -
  from assms have t: "truthy (thought data)" "typeof (thought data) = ''string''"
    and n: "truthy (thoughtNumber data)" "typeof (thoughtNumber data) = ''number''"
    and m: "truthy (totalThoughts data)" "typeof (totalThoughts data) = ''number''"
    and b: "typeof (nextThoughtNeeded data) = ''boolean''"
    and v: "v = asserted data"
    unfolding validateInput_def by (simp_all split: if_splits)
  from t(2) obtain s where s: "thought data = JStr s" unfolding typeof_string ..
  from n(2) obtain x where x: "thoughtNumber data = JNum x" unfolding typeof_number ..
  from m(2) obtain y where y: "totalThoughts data = JNum y" unfolding typeof_number ..
  from b obtain z where z: "nextThoughtNeeded data = JBool z" unfolding typeof_boolean ..
  from t(1) n(1) m(1) show ?thesis
    unfolding v by (simp add: asserted_def s x y z)
qed

lemma validateInput_Inl:
  assumes "(\<forall>s. thought data = JStr s \<longrightarrow> s = []) \<or>
           (\<forall>n. thoughtNumber data = JNum n \<longrightarrow> n = 0) \<or>
           (\<forall>n. totalThoughts data = JNum n \<longrightarrow> n = 0) \<or>
           (\<forall>b. nextThoughtNeeded data \<noteq> JBool b)"
  shows "\<exists>err. validateInput data = Inl err \<and>
           err \<in> {InvalidThought, InvalidThoughtNumber, InvalidTotalThoughts,
                   InvalidNextThoughtNeeded}"
proof (cases "validateInput data")
  case (Inl err)
  then show ?thesis
    unfolding validateInput_def by (auto split: if_splits)
next
  case (Inr v)
  from validateInput_Inr [OF this] assms show ?thesis by auto
qed

lemma adjustTotal_fields:
  "branchId (adjustTotal v) = branchId v"
  "branchFromThought (adjustTotal v) = branchFromThought v"
  "inp_context (adjustTotal v) = inp_context v"
  "storeInMemory (adjustTotal v) = storeInMemory v"
  "retrieveFromMemory (adjustTotal v) = retrieveFromMemory v"
  by (simp_all add: adjustTotal_def)

lemma asserted_fields:
  "branchId (asserted d) = branchId d"
  "branchFromThought (asserted d) = branchFromThought d"
  "inp_context (asserted d) = inp_context d"
  "storeInMemory (asserted d) = storeInMemory d"
  "retrieveFromMemory (asserted d) = retrieveFromMemory d"
  by (simp_all add: asserted_def)

text \<open>A response that is not a failure comes from the end of the \<^verbatim>\<open>try\<close> block.\<close>

lemma processThought_Result:
  assumes "processThought env data w = (r, w')" and "content r = Result body"
  shows "\<exists>v rc i tf mf. validateInput data = Inr v \<and>
           retrieve (adjustTotal v) (memoryFile w) = Inr rc \<and>
           storeThought env (adjustTotal v) (thinkingFile w) = (Inr i, tf) \<and>
           storeInsight (adjustTotal v) i (memoryFile w) = (Inr (), mf) \<and>
           r = respond (adjustTotal v) i rc \<and>
           w' = w\<lparr>thinkingFile := tf, memoryFile := mf\<rparr>"
  using assms
  by (auto simp: processThought_def failure_def Let_def split: sum.splits prod.splits)

text \<open>
  The first scenario of the specification: a first thought with a context and
  \<^verbatim>\<open>storeInMemory\<close>, on empty stores. The response carries the generated chain
  identifier, the chain file holds the new chain, and the graph file holds the entity of
  the context and its relation to the chain.
\<close>

lemma processThought_example:
  "processThought exampleEnv (exampleRequest\<lparr>retrieveFromMemory := None\<rparr>) emptyWorld =
     (\<lparr>content = Result
         \<lparr>res_thoughtNumber = 1, res_totalThoughts = 3, res_nextThoughtNeeded = True,
          thoughtChainId = ''k3x9q'', relevantContext = None, contextStored = True\<rparr>,
       isError = False\<rparr>,
      \<lparr>memoryFile = Stored
         \<lparr>entities = [\<lparr>name = ''topic'', entityType = ''ThoughtContext'',
                       observations = [''A'']\<rparr>],
          relations = [\<lparr>rel_from = ''topic'', rel_to = ''ThoughtChain_k3x9q'',
                        relationType = ''has_thinking_process''\<rparr>]\<rparr>,
       thinkingFile = Stored
         [''k3x9q'' \<mapsto>
            \<lparr>chain_id = ''k3x9q'', chain_context = ''topic'',
             thoughts = [\<lparr>thought = ''A'', thoughtNumber = 1, totalThoughts = 3,
                          isRevision = None, revisesThought = None,
                          branchFromThought = None, branchId = None,
                          needsMoreThoughts = None, nextThoughtNeeded = True,
                          inp_context = Some ''topic'', timestamp = Some 1002,
                          storeInMemory = Some True, retrieveFromMemory = None\<rparr>],
             branches = Map.empty, createdAt = 1000, updatedAt = 1001\<rparr>]\<rparr>)"
  by (simp add: processThought_def validateInput_def asserted_def adjustTotal_def
      retrieve_def storeThought_def pushThought_def getProperty_def objectPrototypeKeys_def
      newChain_def saveThinking_def
      storeInsight_def createEntities_def createRelations_def saveGraph_def emptyGraph_def
      respond_def exampleRequest_def exampleEnv_def emptyWorld_def Let_def)

section \<open>Chain Store: properties\<close>

text \<open>
  Claim C6. The routing rule is stated for every thought input: with \<^verbatim>\<open>branchFromThought\<close>
  and \<^verbatim>\<open>branchId\<close> both present the stamped thought is appended to
  \<^verbatim>\<open>chain.branches[branchId]\<close>, created empty if new. \<^verbatim>\<open>storeThought\<close> does so for the
  identifiers that \<open>storeThought_routing_when_stored\<close> covers, and not for a
  \<^verbatim>\<open>branchId\<close> that is the name of a member of \<^verbatim>\<open>Object.prototype\<close>: with
  \<^verbatim>\<open>branchFromThought\<close> 1 and \<^verbatim>\<open>branchId\<close> \<^verbatim>\<open>constructor\<close>, on a missing chain file,
  \<^verbatim>\<open>thinking[id]\<close> is the inherited member, no chain and no branch is created, the read
  of \<^verbatim>\<open>chain.branches[input.branchId]\<close> throws, and nothing is saved.
\<close>

theorem storeThought_prototype_name_throws:
  "storeThought exampleEnv
     (exampleThought\<lparr>branchFromThought := Some 1, branchId := Some ''constructor''\<rparr>) Missing =
     (Inl (TypeError ''Cannot read properties of undefined (reading 'constructor')''),
      Missing)"
  by (simp add: storeThought_def Let_def getProperty_def objectPrototypeKeys_def
      inheritedChainError_def exampleThought_def)




text \<open>
  Claim C10. When \<^verbatim>\<open>storeThought\<close> appends to a chain that the chain file already holds
  under the returned identifier, the saved chain has the \<^verbatim>\<open>id\<close>, \<^verbatim>\<open>context\<close> and
  \<^verbatim>\<open>createdAt\<close> it had (the context of the request is not used), its \<^verbatim>\<open>updatedAt\<close> is
  refreshed, and either the stamped thought is appended to \<^verbatim>\<open>thoughts\<close> and the
  branches are as before, or \<^verbatim>\<open>thoughts\<close> is as before and one branch has the stamped
  thought appended; every other chain of the saved map is as it was.
\<close>

theorem storeThought_existing_chain_frame:
  assumes "loadThinking f = Inr thinking"
    and "storeThought env input f = (Inr i, f')"
    and "thinking i = Some c"
  shows "\<exists>thinking' c'.
           f' = Stored thinking' \<and> thinking' i = Some c' \<and>
           chain_id c' = chain_id c \<and> chain_context c' = chain_context c \<and>
           createdAt c' = createdAt c \<and> updatedAt c' = nowUpdatedAt env \<and>
           ((thoughts c' = thoughts c @ [input\<lparr>timestamp := Some (nowTimestamp env)\<rparr>] \<and>
             branches c' = branches c) \<or>
            (thoughts c' = thoughts c \<and>
             (\<exists>b. branches c' =
                (branches c)(b \<mapsto> (case branches c b of None \<Rightarrow> [] | Some ts \<Rightarrow> ts)
                                   @ [input\<lparr>timestamp := Some (nowTimestamp env)\<rparr>])))) \<and>
           (\<forall>k. k \<noteq> i \<longrightarrow> thinking' k = thinking k)"
proof -
  from storeThought_Inr [OF assms(1,2)] assms(3) obtain chain' where
    p: "pushThought input (input\<lparr>timestamp := Some (nowTimestamp env)\<rparr>)
          (c\<lparr>updatedAt := nowUpdatedAt env\<rparr>) = Inr chain'"
    and f': "f' = Stored (thinking(i \<mapsto> chain'))"
    by auto
  from pushThought_Inr [OF p] show ?thesis
    unfolding f'
    by (cases "truthyNumber (branchFromThought input) \<and> truthyString (branchId input)")
       auto
qed

theorem storeThought_existing_chain_frame_witness:
  "loadThinking (Stored exampleThinking) = Inr exampleThinking \<and>
   storeThought exampleEnv
     (exampleThought\<lparr>branchId := Some ''c1'', inp_context := Some ''new topic''\<rparr>)
     (Stored exampleThinking) =
     (Inr ''c1'',
      snd (storeThought exampleEnv
             (exampleThought\<lparr>branchId := Some ''c1'', inp_context := Some ''new topic''\<rparr>)
             (Stored exampleThinking))) \<and>
   exampleThinking ''c1'' = Some exampleChain \<and>
   (\<exists>thinking' c'.
      snd (storeThought exampleEnv
             (exampleThought\<lparr>branchId := Some ''c1'', inp_context := Some ''new topic''\<rparr>)
             (Stored exampleThinking)) = Stored thinking' \<and>
      thinking' ''c1'' = Some c' \<and>
      chain_id c' = chain_id exampleChain \<and> chain_context c' = chain_context exampleChain \<and>
      createdAt c' = createdAt exampleChain \<and> updatedAt c' = nowUpdatedAt exampleEnv \<and>
      ((thoughts c' =
          thoughts exampleChain
          @ [exampleThought\<lparr>branchId := Some ''c1'', inp_context := Some ''new topic''\<rparr>
               \<lparr>timestamp := Some (nowTimestamp exampleEnv)\<rparr>] \<and>
        branches c' = branches exampleChain) \<or>
       (thoughts c' = thoughts exampleChain \<and>
        (\<exists>b. branches c' =
           (branches exampleChain)
             (b \<mapsto> (case branches exampleChain b of None \<Rightarrow> [] | Some ts \<Rightarrow> ts)
                     @ [exampleThought\<lparr>branchId := Some ''c1'',
                                       inp_context := Some ''new topic''\<rparr>
                          \<lparr>timestamp := Some (nowTimestamp exampleEnv)\<rparr>])))) \<and>
      (\<forall>k. k \<noteq> ''c1'' \<longrightarrow> thinking' k = exampleThinking k))"
proof -
  have h1: "loadThinking (Stored exampleThinking) = Inr exampleThinking" by simp
  have h2: "storeThought exampleEnv
     (exampleThought\<lparr>branchId := Some ''c1'', inp_context := Some ''new topic''\<rparr>)
     (Stored exampleThinking) =
     (Inr ''c1'',
      snd (storeThought exampleEnv
             (exampleThought\<lparr>branchId := Some ''c1'', inp_context := Some ''new topic''\<rparr>)
             (Stored exampleThinking)))"
    by (simp add: storeThought_def Let_def getProperty_def exampleThinking_def
        pushThought_def exampleThought_def)
  have h3: "exampleThinking ''c1'' = Some exampleChain"
    by (simp add: exampleThinking_def)
  from h1 h2 h3 storeThought_existing_chain_frame [OF h1 h2 h3] show ?thesis
    by (intro conjI)
qed

section \<open>Orchestrator: properties\<close>

text \<open>
  Claim C1, as stated, fails. The request \<open>exampleRequest\<close> is valid, has
  \<^verbatim>\<open>retrieveFromMemory\<close> true and the context \<^verbatim>\<open>topic\<close>; on a graph file that does not
  parse, \<^verbatim>\<open>searchNodes\<close> throws, \<^verbatim>\<open>processThought\<close> returns the failure response with
  \<^verbatim>\<open>isError\<close> true, and the chain file is still missing: step 4 has not run.
\<close>

theorem processThought_search_error_counterexample:
  "retrieveFromMemory exampleRequest = Some True \<and>
   inp_context exampleRequest = Some ''topic'' \<and>
   searchNodes ''topic'' (memoryFile brokenGraphWorld) =
     Inl (StorageError ''Unexpected end of JSON input'') \<and>
   processThought exampleEnv exampleRequest brokenGraphWorld =
     (\<lparr>content = Failed ''Unexpected end of JSON input'', isError = True\<rparr>, brokenGraphWorld) \<and>
   thinkingFile brokenGraphWorld = Missing"
  by (simp add: processThought_def validateInput_def asserted_def adjustTotal_def
      retrieve_def searchNodes_def failure_def brokenGraphWorld_def exampleRequest_def)

text \<open>
  Claim C1, amended. For every request that passes the validation, has
  \<^verbatim>\<open>retrieveFromMemory\<close> true and a non-empty context, if the search of the Graph Store
  raises an error then the request fails: \<^verbatim>\<open>processThought\<close> returns the failure
  response with \<^verbatim>\<open>isError\<close> true and the message of that error, the thought is not
  appended to the Chain Store, and both files are as they were.
\<close>

theorem processThought_search_error_fails:
  assumes "validateInput data = Inr v"
    and "retrieveFromMemory data = Some True"
    and "inp_context data = Some c" and "c \<noteq> []"
    and "searchNodes c (memoryFile w) = Inl err"
  shows "processThought env data w = (\<lparr>content = Failed (message err), isError = True\<rparr>, w)"
proof -
  from validateInput_Inr [OF assms(1)] have v: "v = asserted data" by simp
  have "retrieve (adjustTotal v) (memoryFile w) = Inl err"
    using assms(2-5) by (simp add: retrieve_def adjustTotal_fields asserted_fields v)
  then show ?thesis
    using assms(1) by (simp add: processThought_def failure_def)
qed

theorem processThought_search_error_fails_witness:
  "validateInput exampleRequest = Inr (asserted exampleRequest) \<and>
   retrieveFromMemory exampleRequest = Some True \<and>
   inp_context exampleRequest = Some ''topic'' \<and> ''topic'' \<noteq> [] \<and>
   searchNodes ''topic'' (memoryFile brokenGraphWorld') =
     Inl (StorageError ''Unexpected end of JSON input'') \<and>
   processThought exampleEnv exampleRequest brokenGraphWorld' =
     (\<lparr>content = Failed (message (StorageError ''Unexpected end of JSON input'')),
       isError = True\<rparr>, brokenGraphWorld')"
proof -
  have h1: "validateInput exampleRequest = Inr (asserted exampleRequest)"
    by (simp add: validateInput_def exampleRequest_def)
  have h2: "retrieveFromMemory exampleRequest = Some True"
    by (simp add: exampleRequest_def)
  have h3: "inp_context exampleRequest = Some ''topic''"
    by (simp add: exampleRequest_def)
  have h4: "''topic'' \<noteq> []" by simp
  have h5: "searchNodes ''topic'' (memoryFile brokenGraphWorld') =
              Inl (StorageError ''Unexpected end of JSON input'')"
    by (simp add: searchNodes_def brokenGraphWorld'_def)
  from h1 h2 h3 h4 h5 processThought_search_error_fails [OF h1 h2 h3 h4 h5, of exampleEnv]
  show ?thesis by (intro conjI)
qed

text \<open>
  Claim C2, as stated, fails. \<open>negativeRequest\<close> has \<^verbatim>\<open>thoughtNumber\<close> \<open>-1\<close> and
  \<^verbatim>\<open>totalThoughts\<close> \<open>3/2\<close>, neither a positive integer. \<^verbatim>\<open>validateInput\<close> tests only
  that each is a number and not falsy: the request is processed, the response has no
  \<^verbatim>\<open>isError\<close>, and the chain file is written.
\<close>

theorem processThought_negative_number_counterexample:
  "thoughtNumber negativeRequest = JNum (- 1) \<and>
   totalThoughts negativeRequest = JNum (3 / 2) \<and>
   isError (fst (processThought exampleEnv negativeRequest emptyWorld)) = False \<and>
   thinkingFile (snd (processThought exampleEnv negativeRequest emptyWorld))
     \<noteq> thinkingFile emptyWorld"
  by (simp add: processThought_def validateInput_def asserted_def adjustTotal_def
      retrieve_def storeThought_def pushThought_def getProperty_def objectPrototypeKeys_def
      storeInsight_def respond_def saveThinking_def emptyWorld_def exampleEnv_def Let_def
      negativeRequest_def)

text \<open>
  Claim C2, amended. For every request in which \<^verbatim>\<open>thought\<close> is not a non-empty string,
  \<^verbatim>\<open>thoughtNumber\<close> or \<^verbatim>\<open>totalThoughts\<close> is not a number other than zero (it is absent,
  not of type number, or zero), or \<^verbatim>\<open>nextThoughtNeeded\<close> is not a boolean,
  \<^verbatim>\<open>processThought\<close> returns the failure response with \<^verbatim>\<open>isError\<close> true and the
  message of one of the four validation errors, and neither file is changed.
\<close>

theorem processThought_invalid_input_fails:
  assumes "(\<forall>s. thought data = JStr s \<longrightarrow> s = []) \<or>
           (\<forall>n. thoughtNumber data = JNum n \<longrightarrow> n = 0) \<or>
           (\<forall>n. totalThoughts data = JNum n \<longrightarrow> n = 0) \<or>
           (\<forall>b. nextThoughtNeeded data \<noteq> JBool b)"
  shows "\<exists>err. err \<in> {InvalidThought, InvalidThoughtNumber, InvalidTotalThoughts,
                         InvalidNextThoughtNeeded} \<and>
           processThought env data w =
             (\<lparr>content = Failed (message err), isError = True\<rparr>, w)"
proof -
  from validateInput_Inl [OF assms] obtain err where
    "validateInput data = Inl err"
    "err \<in> {InvalidThought, InvalidThoughtNumber, InvalidTotalThoughts,
             InvalidNextThoughtNeeded}" by blast
  then show ?thesis
    by (auto simp: processThought_def failure_def)
qed

theorem processThought_invalid_input_fails_witness:
  "((\<forall>s. thought (exampleRequest\<lparr>nextThoughtNeeded := JUndefined\<rparr>) = JStr s \<longrightarrow> s = []) \<or>
    (\<forall>n. thoughtNumber (exampleRequest\<lparr>nextThoughtNeeded := JUndefined\<rparr>) = JNum n \<longrightarrow> n = 0) \<or>
    (\<forall>n. totalThoughts (exampleRequest\<lparr>nextThoughtNeeded := JUndefined\<rparr>) = JNum n \<longrightarrow> n = 0) \<or>
    (\<forall>b. nextThoughtNeeded (exampleRequest\<lparr>nextThoughtNeeded := JUndefined\<rparr>) \<noteq> JBool b)) \<and>
   (\<exists>err. err \<in> {InvalidThought, InvalidThoughtNumber, InvalidTotalThoughts,
                   InvalidNextThoughtNeeded} \<and>
      processThought exampleEnv (exampleRequest\<lparr>nextThoughtNeeded := JUndefined\<rparr>) emptyWorld =
        (\<lparr>content = Failed (message err), isError = True\<rparr>, emptyWorld))"
proof -
  have h: "(\<forall>s. thought (exampleRequest\<lparr>nextThoughtNeeded := JUndefined\<rparr>) = JStr s \<longrightarrow> s = []) \<or>
    (\<forall>n. thoughtNumber (exampleRequest\<lparr>nextThoughtNeeded := JUndefined\<rparr>) = JNum n \<longrightarrow> n = 0) \<or>
    (\<forall>n. totalThoughts (exampleRequest\<lparr>nextThoughtNeeded := JUndefined\<rparr>) = JNum n \<longrightarrow> n = 0) \<or>
    (\<forall>b. nextThoughtNeeded (exampleRequest\<lparr>nextThoughtNeeded := JUndefined\<rparr>) \<noteq> JBool b)"
    by simp
  show ?thesis
    by (rule conjI [OF h processThought_invalid_input_fails [OF h, of exampleEnv emptyWorld]])
qed

text \<open>
  For a request that passes the validation, has \<^verbatim>\<open>storeInMemory\<close> true and no context,
  and whose append to the Chain Store returns: the response is not an error, reports
  \<^verbatim>\<open>contextStored\<close> true, and the graph file is the one the call started from.
\<close>

lemma processThought_contextStored_when_stored:
  assumes "validateInput data = Inr v"
    and "storeInMemory data = Some True"
    and "inp_context data = None"
    and "storeThought env (adjustTotal v) (thinkingFile w) = (Inr i, tf)"
  shows "\<exists>body. processThought env data w =
                  (\<lparr>content = Result body, isError = False\<rparr>, w\<lparr>thinkingFile := tf\<rparr>) \<and>
                contextStored body = True \<and> thoughtChainId body = i"
proof -
  from validateInput_Inr [OF assms(1)] have v: "v = asserted data" by simp
  have r: "retrieve (adjustTotal v) (memoryFile w) = Inr None"
    using assms(3) by (simp add: retrieve_def adjustTotal_fields asserted_fields v)
  have s: "storeInsight (adjustTotal v) i (memoryFile w) = (Inr (), memoryFile w)"
    using assms(3) by (simp add: storeInsight_def adjustTotal_fields asserted_fields v)
  have c: "truthyBoolean (storeInMemory (adjustTotal v))"
    using assms(2) by (simp add: adjustTotal_fields asserted_fields v)
  show ?thesis
    using assms(1,4) r s c
    by (simp add: processThought_def respond_def Let_def)
qed

text \<open>
  In every response that is not an error, \<^verbatim>\<open>contextStored\<close> is true exactly when the
  \<^verbatim>\<open>storeInMemory\<close> of the request is present and true.
\<close>

lemma processThought_contextStored_is_flag:
  assumes "processThought env data w = (r, w')" and "content r = Result body"
  shows "contextStored body = (storeInMemory data = Some True)"
proof -
  from processThought_Result [OF assms] obtain v rc i where
    v: "validateInput data = Inr v" and r: "r = respond (adjustTotal v) i rc" by blast
  from validateInput_Inr [OF v] have "storeInMemory (adjustTotal v) = storeInMemory data"
    by (simp add: adjustTotal_fields asserted_fields)
  moreover from assms(2) r have "contextStored body = truthyBoolean (storeInMemory (adjustTotal v))"
    by (auto simp: respond_def)
  ultimately show ?thesis
    by (cases "storeInMemory data") auto
qed

text \<open>
  Claim C9. Every valid request with \<^verbatim>\<open>storeInMemory\<close> true and no context should get a
  response that reports \<^verbatim>\<open>contextStored\<close> true. \<^verbatim>\<open>processThought\<close> gives it whenever
  the append to the Chain Store returns (\<open>processThought_contextStored_when_stored\<close>),
  and not for a \<^verbatim>\<open>branchId\<close> that is the name of a member of \<^verbatim>\<open>Object.prototype\<close>: the
  request below is valid, has \<^verbatim>\<open>storeInMemory\<close> true, no context and the \<^verbatim>\<open>branchId\<close>
  \<^verbatim>\<open>constructor\<close>; on empty stores \<^verbatim>\<open>storeThought\<close> throws on the inherited member and
  the response is the failure response, without \<^verbatim>\<open>contextStored\<close>.
\<close>

theorem processThought_prototype_name_fails:
  "validateInput (exampleRequest\<lparr>inp_context := None, branchId := Some ''constructor''\<rparr>) =
     Inr (asserted (exampleRequest\<lparr>inp_context := None, branchId := Some ''constructor''\<rparr>)) \<and>
   storeInMemory (exampleRequest\<lparr>inp_context := None, branchId := Some ''constructor''\<rparr>) =
     Some True \<and>
   inp_context (exampleRequest\<lparr>inp_context := None, branchId := Some ''constructor''\<rparr>) = None \<and>
   processThought exampleEnv
     (exampleRequest\<lparr>inp_context := None, branchId := Some ''constructor''\<rparr>) emptyWorld =
     (\<lparr>content = Failed ''Cannot read properties of undefined (reading 'push')'',
       isError = True\<rparr>, emptyWorld)"
  by (simp add: processThought_def validateInput_def asserted_def adjustTotal_def
      retrieve_def storeThought_def getProperty_def objectPrototypeKeys_def
      inheritedChainError_def failure_def exampleRequest_def emptyWorld_def Let_def)

theorem processThought_prototype_name_fails_witness:
  "isError (fst (processThought exampleEnv
      (exampleRequest\<lparr>inp_context := None, branchId := Some ''constructor''\<rparr>) emptyWorld)) \<and>
   snd (processThought exampleEnv
      (exampleRequest\<lparr>inp_context := None, branchId := Some ''constructor''\<rparr>) emptyWorld) =
     emptyWorld"
  using processThought_prototype_name_fails by simp

end
